theory Spec2Isabelle
  imports Main "HOL-Library.Word" "HOL-Library.Sublist"
begin

unbundle bit_operations_syntax

section \<open>Data model\<close>

text \<open>
  The program is a Python service in two files.  \<^verbatim>\<open>transcription_service.py\<close> holds the
  class \<^verbatim>\<open>TranscriptionService\<close> (transcript store, audio queue, client list, the
  background loop); \<^verbatim>\<open>main.py\<close> holds the class \<^verbatim>\<open>ConnectionManager\<close> and the
  \<^verbatim>\<open>/ws/audio\<close> endpoint.  Both are embedded below, function by function.

  Python exceptions are values of \<open>exn\<close>; \<open>str\<close> is Python's \<^verbatim>\<open>str(e)\<close>.
  \<open>Exception\<close> stands for every exception class the program does not tell apart.
\<close>

datatype exn = ValueError string | IndexError string | TypeError string | Exception string

fun str :: "exn \<Rightarrow> string" where
  "str (ValueError m) = m"
| "str (IndexError m) = m"
| "str (TypeError m) = m"
| "str (Exception m) = m"

text \<open>
  A WebSocket object is known by its identity only.  An audio buffer is a one-dimensional
  \<^verbatim>\<open>float32\<close> array; a sample is kept as its 32 bits, since no function of the program
  computes with samples.  A \<^verbatim>\<open>datetime\<close> is a number of seconds.
\<close>

type_synonym websocket = nat
type_synonym sample = "32 word"
type_synonym ndarray = "sample list"
type_synonym bytes = "8 word list"
type_synonym datetime = nat

record ActionItem =
  task :: string
  assignee :: "string option"
  due_date :: "datetime option"
  item_context :: "string option"
  status :: string
  created_at :: datetime

record DiagramMetadata =
  diagram_type :: string
  content :: string
  relationships :: "(string \<times> string) list list"
  title :: "string option"
  diagram_created_at :: datetime
  last_updated :: datetime

text \<open>
  What is sent to a client.  \<open>Event t d\<close> is the dictionary \<^verbatim>\<open>{"type": t, "data": d}\<close>;
  \<open>Snapshot\<close> is the dictionary of \<^verbatim>\<open>get_current_state\<close>.  The payloads are the
  dictionaries the two files build:
  \<^item> \<open>TextData t\<close> is \<^verbatim>\<open>{"text": t}\<close>;
  \<^item> \<open>DiagramData d\<close> is \<^verbatim>\<open>diagram.dict()\<close>, \<open>ItemsData xs\<close> is \<^verbatim>\<open>[item.dict() for item in xs]\<close>;
  \<^item> \<open>ResultsData t d a\<close> is \<^verbatim>\<open>{"transcript": t, "diagram": d, "action_items": a}\<close> of
    \<^verbatim>\<open>main.py\<close>, where \<open>d = None\<close> is Python's \<^verbatim>\<open>None\<close> and \<open>a = None\<close> is the \<^verbatim>\<open>[]\<close> that
    \<^verbatim>\<open>extract_action_items\<close> returns on failure;
  \<^item> \<open>ErrorData m\<close> is \<^verbatim>\<open>{"error": m}\<close> and \<open>MessageData m\<close> is \<^verbatim>\<open>{"message": m}\<close>.
  A message is the dictionary itself; whether \<^verbatim>\<open>json.dumps\<close> accepts it is \<open>json_dumps\<close>
  below.
\<close>

datatype data =
    TextData string
  | DiagramData DiagramMetadata
  | ItemsData "ActionItem list"
  | ResultsData string "string option" "string option"
  | ErrorData string
  | MessageData string

datatype message =
    Event string data
  | Snapshot string "DiagramMetadata list" "ActionItem list"

text \<open>
  The external collaborators, as the program calls them.  Each call that the source
  guards with \<^verbatim>\<open>try\<close>, and each call on a WebSocket, may raise:
  \<^item> \<open>transcribe a\<close> is \<^verbatim>\<open>model.transcribe(a)["text"]\<close>;
  \<^item> \<open>diagram_completion t\<close> and \<open>action_completion t\<close> are the two chat completions of
    \<^verbatim>\<open>TranscriptionService\<close> on the transcript \<open>t\<close>, up to
    \<^verbatim>\<open>response.choices[0].message.content\<close>; \<open>mgr_diagram_completion\<close> and
    \<open>mgr_action_completion\<close> are those of \<^verbatim>\<open>ConnectionManager\<close>;
  \<^item> \<open>diagram_validate\<close> is \<^verbatim>\<open>DiagramMetadata.model_validate_json\<close>, \<open>item_validate\<close> is
    \<^verbatim>\<open>ActionItem.model_validate_json\<close>;
  \<^item> \<open>ws_accept\<close>, \<open>ws_send\<close>, \<open>ws_close\<close> are \<^verbatim>\<open>accept\<close>, \<^verbatim>\<open>send_text\<close> (the transport of an
    already serialised message) and \<^verbatim>\<open>close\<close> of a WebSocket; \<open>None\<close> means the call
    returned.
  A collaborator is a function of its argument: the same call gives the same answer.
\<close>

record world =
  transcribe :: "ndarray \<Rightarrow> exn + string"
  diagram_completion :: "string \<Rightarrow> exn + string"
  action_completion :: "string \<Rightarrow> exn + string"
  diagram_validate :: "string \<Rightarrow> exn + DiagramMetadata"
  item_validate :: "string \<Rightarrow> exn + ActionItem"
  mgr_diagram_completion :: "string \<Rightarrow> exn + string"
  mgr_action_completion :: "string \<Rightarrow> exn + string"
  ws_accept :: "websocket \<Rightarrow> exn option"
  ws_send :: "websocket \<Rightarrow> message \<Rightarrow> exn option"
  ws_close :: "websocket \<Rightarrow> exn option"

text \<open>
  The fields of \<^verbatim>\<open>TranscriptionService\<close>.  \<open>audio_buffer\<close> is the \<^verbatim>\<open>queue.Queue\<close>, oldest
  chunk first.  \<open>delivered\<close> is not a field of the class: it is the trace of the messages
  that reached a client, in the order they were sent.
\<close>

record service =
  current_transcript :: string
  action_items :: "ActionItem list"
  diagrams :: "DiagramMetadata list"
  websocket_clients :: "websocket list"
  audio_buffer :: "ndarray list"
  is_processing :: bool
  delivered :: "(websocket \<times> message) list"

text \<open>
  The fields of \<^verbatim>\<open>ConnectionManager\<close>; its \<^verbatim>\<open>current_transcript\<close> is \<open>mgr_transcript\<close>.
  \<open>mgr_delivered\<close> is the trace of delivered messages and \<open>closed_channels\<close> the trace of
  the WebSockets whose \<^verbatim>\<open>close\<close> returned.
\<close>

record manager =
  active_connections :: "websocket list"
  shutdown_event :: bool
  mgr_transcript :: string
  mgr_delivered :: "(websocket \<times> message) list"
  closed_channels :: "websocket list"

section \<open>Python library functions\<close>

text \<open>\<^verbatim>\<open>xs[i]\<close> on a list: a negative index counts from the end, out of range raises.\<close>

definition list_getitem :: "'a list \<Rightarrow> int \<Rightarrow> exn + 'a" where
  "list_getitem xs i =
     (if 0 \<le> i \<and> i < int (length xs) then Inr (xs ! nat i)
      else if i < 0 \<and> - int (length xs) \<le> i then Inr (xs ! nat (int (length xs) + i))
      else Inl (IndexError ''list index out of range''))"

text \<open>\<^verbatim>\<open>s.split(sep)\<close> for a one-character separator: never empty, \<^verbatim>\<open>"".split(sep) == [""]\<close>.\<close>

fun split :: "char \<Rightarrow> string \<Rightarrow> string list" where
  "split sep [] = [[]]"
| "split sep (c # cs) =
     (if c = sep then [] # split sep cs
      else (case split sep cs of
              [] \<Rightarrow> [[c]]
            | piece # pieces \<Rightarrow> (c # piece) # pieces))"

text \<open>
  \<^verbatim>\<open>s.strip()\<close>: whitespace removed at both ends.  A \<open>char\<close> is a code point below 256,
  and the code points below 256 that \<^verbatim>\<open>str.isspace\<close> accepts are tab, line feed, vertical
  tab, form feed, carriage return, the four separators \<^verbatim>\<open>0x1c\<close> to \<^verbatim>\<open>0x1f\<close>, the space,
  next line (\<^verbatim>\<open>0x85\<close>) and the no-break space (\<^verbatim>\<open>0xa0\<close>).
\<close>

definition isspace :: "char \<Rightarrow> bool" where
  "isspace c = (of_char c \<in> {9::nat, 10, 11, 12, 13, 28, 29, 30, 31, 32, 133, 160})"

definition strip :: "string \<Rightarrow> string" where
  "strip s = rev (dropWhile isspace (rev (dropWhile isspace s)))"

definition newline :: char where
  "newline = CHR 0x0A"

text \<open>
  \<^verbatim>\<open>np.frombuffer(data, dtype=np.float32)\<close>: four bytes a sample, little endian; a
  length that is not a multiple of four raises \<^verbatim>\<open>ValueError\<close>.
\<close>

definition sample_of_bytes :: "8 word \<Rightarrow> 8 word \<Rightarrow> 8 word \<Rightarrow> 8 word \<Rightarrow> sample" where
  "sample_of_bytes b0 b1 b2 b3 =
     ucast b0 OR push_bit 8 (ucast b1) OR push_bit 16 (ucast b2) OR push_bit 24 (ucast b3)"

fun frombuffer :: "bytes \<Rightarrow> exn + ndarray" where
  "frombuffer [] = Inr []"
| "frombuffer (b0 # b1 # b2 # b3 # rest) =
     (case frombuffer rest of
        Inl e \<Rightarrow> Inl e
      | Inr samples \<Rightarrow> Inr (sample_of_bytes b0 b1 b2 b3 # samples))"
| "frombuffer _ = Inl (ValueError ''buffer size must be a multiple of element size'')"

text \<open>\<^verbatim>\<open>queue.Queue\<close>: \<^verbatim>\<open>put\<close> appends, \<^verbatim>\<open>get\<close> takes the oldest element.\<close>

definition queue_put :: "'a list \<Rightarrow> 'a \<Rightarrow> 'a list" where
  "queue_put q x = q @ [x]"

text \<open>
  \<^verbatim>\<open>json.dumps\<close> on the dictionaries the program builds; \<open>None\<close> means it returns the
  text.  \<^verbatim>\<open>.dict()\<close> keeps the \<^verbatim>\<open>datetime\<close> fields of a model as \<^verbatim>\<open>datetime\<close> objects, and
  \<^verbatim>\<open>json.dumps\<close> raises \<^verbatim>\<open>TypeError\<close> on them; every \<^verbatim>\<open>ActionItem\<close> and every
  \<^verbatim>\<open>DiagramMetadata\<close> has \<^verbatim>\<open>created_at\<close>.  So a payload is accepted exactly when it holds
  no diagram and no action item.
\<close>

fun serializable :: "data \<Rightarrow> bool" where
  "serializable (TextData t) = True"
| "serializable (DiagramData d) = False"
| "serializable (ItemsData xs) = (xs = [])"
| "serializable (ResultsData t d a) = True"
| "serializable (ErrorData m) = True"
| "serializable (MessageData m) = True"

fun json_dumps :: "message \<Rightarrow> exn option" where
  "json_dumps (Event t d) =
     (if serializable d then None
      else Some (TypeError ''Object of type datetime is not JSON serializable''))"
| "json_dumps (Snapshot t ds xs) =
     (if ds = [] \<and> xs = [] then None
      else Some (TypeError ''Object of type datetime is not JSON serializable''))"

text \<open>\<^verbatim>\<open>websocket.send_json(data)\<close>: \<^verbatim>\<open>json.dumps\<close>, then the send.\<close>

definition send_json :: "world \<Rightarrow> websocket \<Rightarrow> message \<Rightarrow> exn option" where
  "send_json w websocket msg =
     (case json_dumps msg of
        Some e \<Rightarrow> Some e
      | None \<Rightarrow> ws_send w websocket msg)"

section \<open>TranscriptionService\<close>

text \<open>\<^verbatim>\<open>get_current_state\<close>.\<close>

definition get_current_state :: "service \<Rightarrow> message" where
  "get_current_state s = Snapshot (current_transcript s) (diagrams s) (action_items s)"

text \<open>
  \<^verbatim>\<open>export_diagram(diagram_id, format)\<close>: the bounds check, the indexing, then \<^verbatim>\<open>pass\<close>,
  so the value returned is Python's \<^verbatim>\<open>None\<close>.
\<close>

definition export_diagram :: "service \<Rightarrow> int \<Rightarrow> string \<Rightarrow> exn + bytes option" where
  "export_diagram s diagram_id format =
     (if diagram_id \<ge> int (length (diagrams s)) then Inl (ValueError ''Invalid diagram ID'')
      else (case list_getitem (diagrams s) diagram_id of
              Inl e \<Rightarrow> Inl e
            | Inr diagram \<Rightarrow> Inr None))"

text \<open>
  A method that mutates \<^verbatim>\<open>self\<close> and may raise returns the exception, if any, together
  with the object as the method left it.  \<open>and_then\<close> runs the next statement unless the
  one before it raised.
\<close>

definition and_then ::
  "exn option \<times> 's \<Rightarrow> ('s \<Rightarrow> exn option \<times> 's) \<Rightarrow> exn option \<times> 's" where
  "and_then r f = (case r of (None, s) \<Rightarrow> f s | (Some e, s) \<Rightarrow> (Some e, s))"

text \<open>\<^verbatim>\<open>remove_client\<close>: \<^verbatim>\<open>list.remove\<close> raises \<^verbatim>\<open>ValueError\<close> when the element is absent.\<close>

definition remove_client :: "service \<Rightarrow> websocket \<Rightarrow> exn option \<times> service" where
  "remove_client s websocket =
     (if websocket \<in> set (websocket_clients s)
      then (None, s\<lparr>websocket_clients := remove1 websocket (websocket_clients s)\<rparr>)
      else (Some (ValueError ''list.remove(x): x not in list''), s))"

text \<open>
  \<^verbatim>\<open>register_client\<close>: \<^verbatim>\<open>accept\<close>, the append, then \<^verbatim>\<open>send_json\<close> of the current state.
\<close>

definition register_client :: "world \<Rightarrow> service \<Rightarrow> websocket \<Rightarrow> exn option \<times> service" where
  "register_client w s websocket =
     (case ws_accept w websocket of
        Some e \<Rightarrow> (Some e, s)
      | None \<Rightarrow>
          (let s1 = s\<lparr>websocket_clients := websocket_clients s @ [websocket]\<rparr> in
           case send_json w websocket (get_current_state s1) of
             Some e \<Rightarrow> (Some e, s1)
           | None \<Rightarrow>
               (None, s1\<lparr>delivered := delivered s1 @ [(websocket, get_current_state s1)]\<rparr>)))"

text \<open>
  \<^verbatim>\<open>broadcast_update\<close>.  The message is serialised first, outside the \<^verbatim>\<open>try\<close>, so what
  \<^verbatim>\<open>json.dumps\<close> raises leaves the method before any send.  The \<^verbatim>\<open>for\<close> loop runs over \<^verbatim>\<open>self.websocket_clients\<close> itself, and
  \<^verbatim>\<open>remove_client\<close> shortens that list inside the loop.  Python's list iterator keeps an
  index \<open>i\<close>: each round it stops when \<open>i\<close> has reached the present length of the list,
  and yields element \<open>i\<close> otherwise.
\<close>

function broadcast_loop :: "world \<Rightarrow> message \<Rightarrow> nat \<Rightarrow> service \<Rightarrow> exn option \<times> service" where
  "broadcast_loop w msg i s =
     (if i < length (websocket_clients s) then
        (let client = websocket_clients s ! i in
         case ws_send w client msg of
           None \<Rightarrow> broadcast_loop w msg (Suc i) (s\<lparr>delivered := delivered s @ [(client, msg)]\<rparr>)
         | Some e \<Rightarrow>
             (case remove_client s client of
                (None, s1) \<Rightarrow> broadcast_loop w msg (Suc i) s1
              | (Some e1, s1) \<Rightarrow> (Some e1, s1)))
      else (None, s))"
  by pat_completeness auto
termination
proof (relation "measure (\<lambda>(w, msg, i, s). length (websocket_clients s) - i)", goal_cases)
  case 1
  show ?case by simp
next
  case (2 w msg i s client)
  then show ?case by simp
next
  case (3 w msg i s client e r s1)
  from 3(1,2) have mem: "client \<in> set (websocket_clients s)"
    by simp
  with 3(4,5) have "websocket_clients s1 = remove1 client (websocket_clients s)"
    by (auto simp: remove_client_def)
  with mem 3(1) have "length (websocket_clients s1) - Suc i < length (websocket_clients s) - i"
    by (simp add: length_remove1)
  then show ?case by simp
qed

declare broadcast_loop.simps [simp del]

definition broadcast_update :: "world \<Rightarrow> string \<Rightarrow> data \<Rightarrow> service \<Rightarrow> exn option \<times> service" where
  "broadcast_update w update_type d s =
     (case json_dumps (Event update_type d) of
        Some e \<Rightarrow> (Some e, s)
      | None \<Rightarrow> broadcast_loop w (Event update_type d) 0 s)"

text \<open>
  \<^verbatim>\<open>_generate_diagram_spec\<close>: every exception of the completion and of the validation is
  caught, and the result is then \<^verbatim>\<open>None\<close>.
\<close>

definition generate_diagram_spec :: "world \<Rightarrow> service \<Rightarrow> DiagramMetadata option" where
  "generate_diagram_spec w s =
     (case diagram_completion w (current_transcript s) of
        Inl e \<Rightarrow> None
      | Inr diagram_spec \<Rightarrow>
          (case diagram_validate w diagram_spec of
             Inl e \<Rightarrow> None
           | Inr diagram \<Rightarrow> Some diagram))"

text \<open>
  \<^verbatim>\<open>_extract_action_items\<close>.  The list comprehension validates the kept lines from left to
  right and stops at the first one that raises; the handler then returns \<^verbatim>\<open>[]\<close>.
\<close>

fun validate_items :: "world \<Rightarrow> string list \<Rightarrow> exn + ActionItem list" where
  "validate_items w [] = Inr []"
| "validate_items w (item # items) =
     (case item_validate w item of
        Inl e \<Rightarrow> Inl e
      | Inr a \<Rightarrow>
          (case validate_items w items of
             Inl e \<Rightarrow> Inl e
           | Inr parsed \<Rightarrow> Inr (a # parsed)))"

definition extract_action_items :: "world \<Rightarrow> service \<Rightarrow> ActionItem list" where
  "extract_action_items w s =
     (case action_completion w (current_transcript s) of
        Inl e \<Rightarrow> []
      | Inr action_items_raw \<Rightarrow>
          (case validate_items w [item \<leftarrow> split newline action_items_raw. strip item \<noteq> []] of
             Inl e \<Rightarrow> []
           | Inr parsed \<Rightarrow> parsed))"

text \<open>
  \<^verbatim>\<open>_analyze_content\<close>.  Both tasks read the transcript and change nothing, and
  \<^verbatim>\<open>gather\<close> waits for both, so their order does not show.  A \<^verbatim>\<open>DiagramMetadata\<close> object is
  always true in \<^verbatim>\<open>if diagram:\<close>; a list is true when it is not empty.
\<close>

definition analyze_content :: "world \<Rightarrow> service \<Rightarrow> exn option \<times> service" where
  "analyze_content w s =
     (let diagram = generate_diagram_spec w s;
          items = extract_action_items w s
      in and_then
           (case diagram of
              None \<Rightarrow> (None, s)
            | Some d \<Rightarrow> broadcast_update w ''diagram'' (DiagramData d) (s\<lparr>diagrams := diagrams s @ [d]\<rparr>))
           (\<lambda>s1. if items \<noteq> []
                 then broadcast_update w ''action_items'' (ItemsData items)
                        (s1\<lparr>action_items := action_items s1 @ items\<rparr>)
                 else (None, s1)))"

text \<open>\<^verbatim>\<open>process_audio_chunk\<close>; it returns the transcribed text.\<close>

definition process_audio_chunk :: "world \<Rightarrow> service \<Rightarrow> ndarray \<Rightarrow> (exn + string) \<times> service" where
  "process_audio_chunk w s audio_chunk =
     (case transcribe w audio_chunk of
        Inl e \<Rightarrow> (Inl e, s)
      | Inr transcribed_text \<Rightarrow>
          (case and_then
                  (broadcast_update w ''transcript'' (TextData transcribed_text)
                     (s\<lparr>current_transcript := current_transcript s @ transcribed_text\<rparr>))
                  (analyze_content w) of
             (Some e, s1) \<Rightarrow> (Inl e, s1)
           | (None, s1) \<Rightarrow> (Inr transcribed_text, s1)))"

text \<open>
  \<^verbatim>\<open>_process_audio_buffer\<close>.  \<open>collect_chunks\<close> is the inner \<^verbatim>\<open>while\<close> loop
  (\<^verbatim>\<open>chunks.append(self.audio_buffer.get())\<close> until the queue is empty); it returns the
  chunks and the queue.  \<open>concatenate\<close> is \<^verbatim>\<open>np.concatenate\<close> on one-dimensional arrays.
\<close>

fun collect_chunks :: "ndarray list \<Rightarrow> ndarray list \<Rightarrow> ndarray list \<times> ndarray list" where
  "collect_chunks [] chunks = (chunks, [])"
| "collect_chunks (chunk # queue) chunks = collect_chunks queue (chunks @ [chunk])"

definition concatenate :: "ndarray list \<Rightarrow> exn + ndarray" where
  "concatenate chunks =
     (if chunks = [] then Inl (ValueError ''need at least one array to concatenate'')
      else Inr (concat chunks))"

text \<open>One round of the outer \<^verbatim>\<open>while\<close> loop, up to the \<^verbatim>\<open>sleep\<close>.\<close>

definition process_audio_buffer_step :: "world \<Rightarrow> service \<Rightarrow> exn option \<times> service" where
  "process_audio_buffer_step w s =
     (if audio_buffer s \<noteq> [] then
        (case collect_chunks (audio_buffer s) [] of
           (chunks, queue) \<Rightarrow>
             (case concatenate chunks of
                Inl e \<Rightarrow> (Some e, s\<lparr>audio_buffer := queue\<rparr>)
              | Inr combined_audio \<Rightarrow>
                  (case process_audio_chunk w (s\<lparr>audio_buffer := queue\<rparr>) combined_audio of
                     (Inl e, s1) \<Rightarrow> (Some e, s1)
                   | (Inr transcribed_text, s1) \<Rightarrow> (None, s1))))
      else (None, s))"

text \<open>
  The loop itself.  The producers are another thread: \<open>arrivals\<close> lists, round by round,
  the chunks put on the queue since the round before.  The loop ends when
  \<open>is_processing\<close> is false, and an exception of a round ends the thread.
\<close>

fun process_audio_buffer :: "world \<Rightarrow> service \<Rightarrow> ndarray list list \<Rightarrow> exn option \<times> service" where
  "process_audio_buffer w s [] = (None, s)"
| "process_audio_buffer w s (arrived # arrivals) =
     (if is_processing s then
        (case process_audio_buffer_step w (s\<lparr>audio_buffer := foldl queue_put (audio_buffer s) arrived\<rparr>) of
           (Some e, s1) \<Rightarrow> (Some e, s1)
         | (None, s1) \<Rightarrow> process_audio_buffer w s1 arrivals)
      else (None, s))"

section \<open>ConnectionManager and the audio endpoint\<close>

text \<open>\<^verbatim>\<open>connect\<close>: \<^verbatim>\<open>accept\<close>, then the append.\<close>

definition connect :: "world \<Rightarrow> manager \<Rightarrow> websocket \<Rightarrow> exn option \<times> manager" where
  "connect w m websocket =
     (case ws_accept w websocket of
        Some e \<Rightarrow> (Some e, m)
      | None \<Rightarrow> (None, m\<lparr>active_connections := active_connections m @ [websocket]\<rparr>))"

text \<open>
  \<^verbatim>\<open>disconnect\<close>: guarded by the membership test; the bare \<^verbatim>\<open>except\<close> drops whatever
  \<^verbatim>\<open>close\<close> raises, so the method never raises.
\<close>

definition disconnect :: "world \<Rightarrow> manager \<Rightarrow> websocket \<Rightarrow> manager" where
  "disconnect w m websocket =
     (if websocket \<in> set (active_connections m) then
        (let m1 = m\<lparr>active_connections := remove1 websocket (active_connections m)\<rparr> in
         case ws_close w websocket of
           None \<Rightarrow> m1\<lparr>closed_channels := closed_channels m1 @ [websocket]\<rparr>
         | Some e \<Rightarrow> m1)
      else m)"

text \<open>
  \<^verbatim>\<open>broadcast\<close>: the first loop sends and collects the connections whose send raised (the
  list it runs over is not changed meanwhile); the second loop disconnects them.
\<close>

fun send_all ::
  "world \<Rightarrow> message \<Rightarrow> websocket list \<Rightarrow> manager \<Rightarrow> websocket list \<Rightarrow> manager \<times> websocket list" where
  "send_all w msg [] m disconnected = (m, disconnected)"
| "send_all w msg (connection # connections) m disconnected =
     (case send_json w connection msg of
        None \<Rightarrow>
          send_all w msg connections
            (m\<lparr>mgr_delivered := mgr_delivered m @ [(connection, msg)]\<rparr>) disconnected
      | Some e \<Rightarrow> send_all w msg connections m (disconnected @ [connection]))"

fun disconnect_all :: "world \<Rightarrow> websocket list \<Rightarrow> manager \<Rightarrow> manager" where
  "disconnect_all w [] m = m"
| "disconnect_all w (conn # conns) m = disconnect_all w conns (disconnect w m conn)"

definition broadcast :: "world \<Rightarrow> message \<Rightarrow> manager \<Rightarrow> manager" where
  "broadcast w msg m =
     (case send_all w msg (active_connections m) m [] of
        (m1, disconnected) \<Rightarrow> disconnect_all w disconnected m1)"

text \<open>
  \<^verbatim>\<open>generate_diagram\<close> and \<^verbatim>\<open>extract_action_items\<close> of \<^verbatim>\<open>ConnectionManager\<close> return the
  completion's text; on an exception the first returns \<^verbatim>\<open>None\<close> and the second \<^verbatim>\<open>[]\<close>,
  both \<open>None\<close> here.
\<close>

definition generate_diagram :: "world \<Rightarrow> string \<Rightarrow> string option" where
  "generate_diagram w t =
     (case mgr_diagram_completion w t of Inl e \<Rightarrow> None | Inr c \<Rightarrow> Some c)"

definition mgr_extract_action_items :: "world \<Rightarrow> string \<Rightarrow> string option" where
  "mgr_extract_action_items w t =
     (case mgr_action_completion w t of Inl e \<Rightarrow> None | Inr c \<Rightarrow> Some c)"

text \<open>
  \<^verbatim>\<open>process_audio\<close>: the whole body is one \<^verbatim>\<open>try\<close>; only the transcription can raise in
  it, the two helpers catch their own exceptions.
\<close>

definition process_audio :: "world \<Rightarrow> manager \<Rightarrow> ndarray \<Rightarrow> data \<times> manager" where
  "process_audio w m audio_data =
     (case transcribe w audio_data of
        Inl e \<Rightarrow> (ErrorData (str e), m)
      | Inr transcribed_text \<Rightarrow>
          (let m1 = m\<lparr>mgr_transcript := mgr_transcript m @ transcribed_text\<rparr> in
           (ResultsData transcribed_text
              (generate_diagram w (mgr_transcript m1))
              (mgr_extract_action_items w (mgr_transcript m1)), m1)))"

text \<open>
  What \<^verbatim>\<open>asyncio.wait_for(websocket.receive_bytes(), timeout=1.0)\<close> does in one round of
  the endpoint: it returns the bytes, or raises \<^verbatim>\<open>asyncio.TimeoutError\<close>,
  \<^verbatim>\<open>WebSocketDisconnect\<close> or another exception.
\<close>

datatype received = Data bytes | TimeoutError | WebSocketDisconnect | ReceiveError exn

text \<open>
  One round of the \<^verbatim>\<open>while\<close> loop of \<^verbatim>\<open>websocket_endpoint\<close>; the Boolean tells whether the
  loop goes on (\<open>False\<close> is the \<^verbatim>\<open>break\<close>).
\<close>

definition websocket_round :: "world \<Rightarrow> websocket \<Rightarrow> manager \<Rightarrow> received \<Rightarrow> bool \<times> manager" where
  "websocket_round w websocket m r =
     (case r of
        TimeoutError \<Rightarrow> (True, m)
      | WebSocketDisconnect \<Rightarrow> (False, disconnect w m websocket)
      | ReceiveError e \<Rightarrow> (True, broadcast w (Event ''error'' (MessageData (str e))) m)
      | Data bs \<Rightarrow>
          (case frombuffer bs of
             Inl e \<Rightarrow> (True, broadcast w (Event ''error'' (MessageData (str e))) m)
           | Inr audio_array \<Rightarrow>
               (case process_audio w m audio_array of
                  (results, m1) \<Rightarrow> (True, broadcast w (Event ''update'' results) m1))))"

text \<open>
  The loop over what the client sends, round by round, and the endpoint: \<^verbatim>\<open>connect\<close>
  before the \<^verbatim>\<open>try\<close>, \<^verbatim>\<open>disconnect\<close> in the \<^verbatim>\<open>finally\<close>.
\<close>

fun websocket_loop :: "world \<Rightarrow> websocket \<Rightarrow> manager \<Rightarrow> received list \<Rightarrow> manager" where
  "websocket_loop w websocket m [] = m"
| "websocket_loop w websocket m (r # rs) =
     (if shutdown_event m then m
      else (case websocket_round w websocket m r of
              (True, m1) \<Rightarrow> websocket_loop w websocket m1 rs
            | (False, m1) \<Rightarrow> m1))"

definition websocket_endpoint ::
  "world \<Rightarrow> websocket \<Rightarrow> manager \<Rightarrow> received list \<Rightarrow> exn option \<times> manager" where
  "websocket_endpoint w websocket m rs =
     (case connect w m websocket of
        (Some e, m1) \<Rightarrow> (Some e, m1)
      | (None, m1) \<Rightarrow> (None, disconnect w (websocket_loop w websocket m1 rs) websocket))"

section \<open>Notions of the specification\<close>

text \<open>
  The text a cycle adds for a buffer: what the Transcriber returns, and nothing when
  the transcription raises.
\<close>

definition transcribed_text :: "world \<Rightarrow> ndarray \<Rightarrow> string" where
  "transcribed_text w a = (case transcribe w a of Inl e \<Rightarrow> [] | Inr t \<Rightarrow> t)"

text \<open>
  The buffers the background loop would hand to the Transcriber, round by round, if
  no round raised, when the queue holds \<open>q\<close> at the start: a round with nothing queued
  hands over nothing, every other round the concatenation of all that is queued.
\<close>

fun submitted_buffers :: "ndarray list \<Rightarrow> ndarray list list \<Rightarrow> ndarray list" where
  "submitted_buffers q [] = []"
| "submitted_buffers q (arrived # arrivals) =
     (if q @ arrived = [] then submitted_buffers [] arrivals
      else concat (q @ arrived) # submitted_buffers [] arrivals)"

text \<open>
  The buffers the background loop did hand to the Transcriber in a run: those of the
  rounds it ran.  A round that raises is the last one, since the exception ends the
  thread.
\<close>

fun handed_over :: "world \<Rightarrow> service \<Rightarrow> ndarray list list \<Rightarrow> ndarray list" where
  "handed_over w s [] = []"
| "handed_over w s (arrived # arrivals) =
     (if is_processing s then
        (if audio_buffer s @ arrived = [] then []
         else [concat (audio_buffer s @ arrived)]) @
        (case process_audio_buffer_step w (s\<lparr>audio_buffer := audio_buffer s @ arrived\<rparr>) of
           (Some e, s1) \<Rightarrow> []
         | (None, s1) \<Rightarrow> handed_over w s1 arrivals)
      else [])"

text \<open>
  The buffers the endpoint hands to \<^verbatim>\<open>process_audio\<close>: the decoded frames, up to the
  first disconnect.
\<close>

fun received_buffers :: "received list \<Rightarrow> ndarray list" where
  "received_buffers [] = []"
| "received_buffers (Data bs # rs) =
     (case frombuffer bs of
        Inl e \<Rightarrow> received_buffers rs
      | Inr a \<Rightarrow> a # received_buffers rs)"
| "received_buffers (WebSocketDisconnect # rs) = []"
| "received_buffers (r # rs) = received_buffers rs"

text \<open>A line is blank when it holds nothing but white space.\<close>

definition blank :: "string \<Rightarrow> bool" where
  "blank l = (\<forall>c \<in> set l. isspace c)"

text \<open>A derivation call fails when the completion raises or its answer does not validate.\<close>

definition diagram_derivation_fails :: "world \<Rightarrow> service \<Rightarrow> bool" where
  "diagram_derivation_fails w s =
     (case diagram_completion w (current_transcript s) of
        Inl e \<Rightarrow> True
      | Inr raw \<Rightarrow> (case diagram_validate w raw of Inl e \<Rightarrow> True | Inr d \<Rightarrow> False))"

definition action_derivation_fails :: "world \<Rightarrow> service \<Rightarrow> bool" where
  "action_derivation_fails w s =
     (case action_completion w (current_transcript s) of
        Inl e \<Rightarrow> True
      | Inr raw \<Rightarrow>
          (case validate_items w [item \<leftarrow> split newline raw. strip item \<noteq> []] of
             Inl e \<Rightarrow> True
           | Inr parsed \<Rightarrow> False))"

section \<open>Concrete inputs\<close>

definition example_item :: ActionItem where
  "example_item =
     \<lparr>task = ''call Bob'', assignee = Some ''Ann'', due_date = None, item_context = None,
      status = ''pending'', created_at = 0\<rparr>"

definition example_diagram :: DiagramMetadata where
  "example_diagram =
     \<lparr>diagram_type = ''flowchart'', content = ''graph TD; A-->B'',
      relationships = [[(''from'', ''A''), (''to'', ''B''), (''type'', ''next'')]],
      title = None, diagram_created_at = 0, last_updated = 0\<rparr>"

text \<open>
  A world in which everything works: every buffer is transcribed as \<open>hello\<close>, the
  diagram answer validates, the action-item answer is one valid line.
\<close>

definition example_world :: world where
  "example_world =
     \<lparr>transcribe = (\<lambda>a. Inr ''hello''),
      diagram_completion = (\<lambda>t. Inr ''flow''),
      action_completion = (\<lambda>t. Inr ''call Bob''),
      diagram_validate = (\<lambda>j. if j = ''flow'' then Inr example_diagram else Inl (Exception ''invalid'')),
      item_validate = (\<lambda>j. if j = ''call Bob'' then Inr example_item else Inl (Exception ''invalid'')),
      mgr_diagram_completion = (\<lambda>t. Inr ''graph''),
      mgr_action_completion = (\<lambda>t. Inr ''todo''),
      ws_accept = (\<lambda>c. None),
      ws_send = (\<lambda>c m. None),
      ws_close = (\<lambda>c. None)\<rparr>"

text \<open>
  Variations: the send to client 1 raises; the Transcriber raises; both completions
  raise; the diagram answer does not validate.
\<close>

definition world_with_dead_client :: world where
  "world_with_dead_client =
     example_world\<lparr>ws_send := (\<lambda>c m. if c = 1 then Some (Exception ''closed'') else None)\<rparr>"


definition world_without_insights :: world where
  "world_without_insights =
     example_world\<lparr>diagram_completion := (\<lambda>t. Inl (Exception ''quota'')),
                    action_completion := (\<lambda>t. Inl (Exception ''quota''))\<rparr>"


definition example_service :: service where
  "example_service =
     \<lparr>current_transcript = ''hi'', action_items = [], diagrams = [],
      websocket_clients = [1, 2], audio_buffer = [], is_processing = True, delivered = []\<rparr>"

definition example_manager :: manager where
  "example_manager =
     \<lparr>active_connections = [1, 2], shutdown_event = False, mgr_transcript = ''hi'',
      mgr_delivered = [], closed_channels = []\<rparr>"

section \<open>Lemmas on the library functions\<close>

lemma collect_chunks_append: "collect_chunks q chunks = (chunks @ q, [])"
  by (induction q arbitrary: chunks) simp_all

lemma foldl_queue_put: "foldl queue_put q cs = q @ cs"
  by (induction cs arbitrary: q) (simp_all add: queue_put_def)

lemma export_diagram_cases:
  "export_diagram s i f =
     (if int (length (diagrams s)) \<le> i then Inl (ValueError ''Invalid diagram ID'')
      else if i < - int (length (diagrams s)) then Inl (IndexError ''list index out of range'')
      else Inr None)"
  by (simp add: export_diagram_def list_getitem_def)

lemma validate_items_all:
  "\<forall>l \<in> set ls. \<exists>a. item_validate w l = Inr a \<Longrightarrow>
   validate_items w ls = Inr (map (\<lambda>l. projr (item_validate w l)) ls)"
  by (induction ls) auto

lemma validate_items_some_fails:
  "l \<in> set ls \<Longrightarrow> item_validate w l = Inl e \<Longrightarrow> \<exists>e'. validate_items w ls = Inl e'"
  by (induction ls) (auto split: sum.splits)

lemma strip_empty_iff: "strip l = [] \<longleftrightarrow> blank l"
proof -
  have "strip l = [] \<longleftrightarrow> (\<forall>c \<in> set (dropWhile isspace l). isspace c)"
    by (simp add: strip_def dropWhile_eq_Nil_conv)
  also have "\<dots> \<longleftrightarrow> dropWhile isspace l = []"
  proof
    assume all: "\<forall>c \<in> set (dropWhile isspace l). isspace c"
    show "dropWhile isspace l = []"
    proof (rule ccontr)
      assume ne: "dropWhile isspace l \<noteq> []"
      then have "\<not> isspace (hd (dropWhile isspace l))"
        by (rule hd_dropWhile)
      moreover from ne have "hd (dropWhile isspace l) \<in> set (dropWhile isspace l)"
        by simp
      ultimately show False
        using all by blast
    qed
  next
    assume "dropWhile isspace l = []"
    then show "\<forall>c \<in> set (dropWhile isspace l). isspace c"
      by (metis empty_iff empty_set)
  qed
  also have "\<dots> \<longleftrightarrow> blank l"
    by (simp add: dropWhile_eq_Nil_conv blank_def)
  finally show ?thesis .
qed

lemma kept_lines:
  "[item \<leftarrow> ls. strip item \<noteq> []] = [item \<leftarrow> ls. \<not> blank item]"
  by (simp add: strip_empty_iff)

section \<open>The audio queue is drained in arrival order\<close>

text \<open>
  C2.  Whatever chunks were put on the queue before the drain, the inner loop of
  \<^verbatim>\<open>_process_audio_buffer\<close> returns exactly these chunks, oldest first, and leaves the
  queue empty; on an empty queue it returns no chunk.  The same holds for a queue that
  already held chunks \<open>q\<close> before the puts.
\<close>

theorem drain_returns_chunks_in_arrival_order:
  "collect_chunks (foldl queue_put [] chunks) [] = (chunks, [])
   \<and> collect_chunks (foldl queue_put q chunks) [] = (q @ chunks, [])
   \<and> collect_chunks [] [] = ([], [])"
  by (simp add: collect_chunks_append foldl_queue_put)

section \<open>Exporting a diagram\<close>

text \<open>
  C9, as it holds.  With \<open>n\<close> stored diagrams, \<^verbatim>\<open>export_diagram(diagram_id)\<close> raises
  \<^verbatim>\<open>ValueError\<close> exactly when \<open>diagram_id \<ge> n\<close>.  A negative identifier passes this check;
  from \<open>-n\<close> on it selects a diagram from the end of the list, below \<open>-n\<close> the
  indexing raises \<^verbatim>\<open>IndexError\<close>.  No call returns bytes: for every identifier from \<open>-n\<close>
  up to \<open>n - 1\<close> the function returns \<^verbatim>\<open>None\<close>.
\<close>

theorem export_diagram_bounds:
  "((\<exists>m. export_diagram s i f = Inl (ValueError m)) \<longleftrightarrow> int (length (diagrams s)) \<le> i)
   \<and> (i < - int (length (diagrams s)) \<longrightarrow>
        export_diagram s i f = Inl (IndexError ''list index out of range''))
   \<and> (- int (length (diagrams s)) \<le> i \<and> i < 0 \<longrightarrow>
        list_getitem (diagrams s) i = Inr (diagrams s ! nat (int (length (diagrams s)) + i))
        \<and> export_diagram s i f = Inr None)
   \<and> (0 \<le> i \<and> i < int (length (diagrams s)) \<longrightarrow>
        list_getitem (diagrams s) i = Inr (diagrams s ! nat i)
        \<and> export_diagram s i f = Inr None)
   \<and> (\<forall>b. export_diagram s i f \<noteq> Inr (Some b))"
  by (simp add: export_diagram_cases list_getitem_def)

theorem export_diagram_bounds_witness:
  "- int (length (diagrams (example_service\<lparr>diagrams := [example_diagram]\<rparr>))) \<le> - 1
   \<and> (- 1 :: int) < 0
   \<and> list_getitem (diagrams (example_service\<lparr>diagrams := [example_diagram]\<rparr>)) (- 1) = Inr example_diagram
   \<and> export_diagram (example_service\<lparr>diagrams := [example_diagram]\<rparr>) (- 1) ''svg'' = Inr None
   \<and> export_diagram (example_service\<lparr>diagrams := [example_diagram]\<rparr>) (- 2) ''svg''
       = Inl (IndexError ''list index out of range'')"
  using export_diagram_bounds [of "example_service\<lparr>diagrams := [example_diagram]\<rparr>" "- 1" "''svg''"]
    export_diagram_bounds [of "example_service\<lparr>diagrams := [example_diagram]\<rparr>" "- 2" "''svg''"]
  by simp

text \<open>
  The claim as written fails: with no diagram stored, the identifier \<open>-1\<close> passes the
  bounds check and then raises \<^verbatim>\<open>IndexError\<close>; it selects no diagram.
\<close>

theorem export_diagram_negative_counterexample:
  "export_diagram example_service (- 1) ''svg'' = Inl (IndexError ''list index out of range'')"
  by (simp add: export_diagram_def list_getitem_def example_service_def)

section \<open>Action items are parsed all or nothing\<close>

text \<open>
  C10.  When the completion returns the text \<open>raw\<close>, \<^verbatim>\<open>_extract_action_items\<close> splits it
  at line feeds, keeps the lines that are not blank (a line is blank when it holds
  nothing but white space) and validates each kept line as one \<^verbatim>\<open>ActionItem\<close>.  If
  every kept line validates, the result is the list of the validated items, in order;
  if a single kept line fails, the result is the empty list, whatever the other lines
  gave.
\<close>

theorem extract_action_items_all_or_nothing:
  assumes "action_completion w (current_transcript s) = Inr raw"
  shows "extract_action_items w s =
           (if \<forall>l \<in> set [item \<leftarrow> split newline raw. \<not> blank item]. \<exists>a. item_validate w l = Inr a
            then map (\<lambda>l. projr (item_validate w l)) [item \<leftarrow> split newline raw. \<not> blank item]
            else [])"
proof -
  define kept where "kept = [item \<leftarrow> split newline raw. \<not> blank item]"
  have run: "extract_action_items w s =
      (case validate_items w kept of Inl e \<Rightarrow> [] | Inr parsed \<Rightarrow> parsed)"
    using assms by (simp add: extract_action_items_def kept_def kept_lines)
  have "extract_action_items w s =
      (if \<forall>l \<in> set kept. \<exists>a. item_validate w l = Inr a
       then map (\<lambda>l. projr (item_validate w l)) kept else [])"
  proof (cases "\<forall>l \<in> set kept. \<exists>a. item_validate w l = Inr a")
    case True
    then have "validate_items w kept = Inr (map (\<lambda>l. projr (item_validate w l)) kept)"
      by (rule validate_items_all)
    with run True show ?thesis
      by simp
  next
    case False
    then obtain l where l: "l \<in> set kept" and none: "\<nexists>a. item_validate w l = Inr a"
      by blast
    from none obtain e where "item_validate w l = Inl e"
      by (cases "item_validate w l") auto
    with l obtain e' where "validate_items w kept = Inl e'"
      using validate_items_some_fails by blast
    with run have "extract_action_items w s = []"
      by simp
    with False show ?thesis
      by (simp only: if_False)
  qed
  then show ?thesis
    unfolding kept_def .
qed

text \<open>
  Two answers: one valid line followed by a line that holds only a no-break space,
  which is blank and dropped; and one valid line, an empty line and a line that does
  not validate, which discards the valid line too.
\<close>

theorem extract_action_items_all_or_nothing_witness:
  "action_completion (example_world\<lparr>action_completion := (\<lambda>t. Inr (''call Bob'' @ [newline, CHR 0xA0]))\<rparr>)
      (current_transcript example_service) = Inr (''call Bob'' @ [newline, CHR 0xA0])
   \<and> [item \<leftarrow> split newline (''call Bob'' @ [newline, CHR 0xA0]). \<not> blank item] = [''call Bob'']
   \<and> extract_action_items
        (example_world\<lparr>action_completion := (\<lambda>t. Inr (''call Bob'' @ [newline, CHR 0xA0]))\<rparr>)
        example_service = [example_item]
   \<and> action_completion (example_world\<lparr>action_completion := (\<lambda>t. Inr (''call Bob'' @ [newline, newline] @ ''bad''))\<rparr>)
      (current_transcript example_service) = Inr (''call Bob'' @ [newline, newline] @ ''bad'')
   \<and> [item \<leftarrow> split newline (''call Bob'' @ [newline, newline] @ ''bad''). \<not> blank item]
       = [''call Bob'', ''bad'']
   \<and> item_validate example_world ''call Bob'' = Inr example_item
   \<and> extract_action_items
        (example_world\<lparr>action_completion := (\<lambda>t. Inr (''call Bob'' @ [newline, newline] @ ''bad''))\<rparr>)
        example_service = []"
  using extract_action_items_all_or_nothing
    [of "example_world\<lparr>action_completion := (\<lambda>t. Inr (''call Bob'' @ [newline, CHR 0xA0]))\<rparr>"
        example_service "''call Bob'' @ [newline, CHR 0xA0]"]
    extract_action_items_all_or_nothing
    [of "example_world\<lparr>action_completion := (\<lambda>t. Inr (''call Bob'' @ [newline, newline] @ ''bad''))\<rparr>"
        example_service "''call Bob'' @ [newline, newline] @ ''bad''"]
  by (simp add: example_world_def newline_def blank_def isspace_def)

section \<open>Registering a client\<close>

text \<open>
  With no diagram and no action item stored, \<^verbatim>\<open>register_client\<close> does what is asked of
  it: when the handshake and the send succeed, it appends the channel and sends it the
  snapshot of the state.
\<close>

lemma register_client_without_history:
  assumes "diagrams s = []" and "action_items s = []"
    and "ws_accept w c = None"
    and "ws_send w c (Snapshot (current_transcript s) [] []) = None"
  shows "register_client w s c =
           (None, s\<lparr>websocket_clients := websocket_clients s @ [c],
                     delivered := delivered s @ [(c, Snapshot (current_transcript s) [] [])]\<rparr>)"
  using assms by (simp add: register_client_def get_current_state_def send_json_def)

text \<open>
  With a diagram or an action item stored, it raises.  The snapshot holds the
  \<^verbatim>\<open>datetime\<close> objects of the stored models, \<^verbatim>\<open>send_json\<close> cannot serialise them, and
  the \<^verbatim>\<open>TypeError\<close> leaves the method after the channel was appended: the new client is
  in the list and has received nothing.
\<close>

lemma register_client_with_history:
  assumes "diagrams s \<noteq> [] \<or> action_items s \<noteq> []" and "ws_accept w c = None"
  shows "register_client w s c =
           (Some (TypeError ''Object of type datetime is not JSON serializable''),
            s\<lparr>websocket_clients := websocket_clients s @ [c]\<rparr>)"
  using assms by (auto simp: register_client_def get_current_state_def send_json_def)


section \<open>Lemmas on broadcasting\<close>

text \<open>
  The loop of \<^verbatim>\<open>broadcast_update\<close> never raises and touches only the client list and the
  trace: the clients it leaves are among those it found, and each message it delivered
  went to one of them.
\<close>

lemma broadcast_loop_shape:
  "\<exists>cs rs. broadcast_loop w msg i s =
      (None, s\<lparr>websocket_clients := cs, delivered := delivered s @ map (\<lambda>c. (c, msg)) rs\<rparr>)
    \<and> set cs \<subseteq> set (websocket_clients s) \<and> set rs \<subseteq> set (websocket_clients s)
    \<and> (\<forall>c \<in> set rs. ws_send w c msg = None)"
proof (induction w msg i s rule: broadcast_loop.induct)
  case (1 w msg i s)
  show ?case
  proof (cases "i < length (websocket_clients s)")
    case False
    then have "broadcast_loop w msg i s = (None, s)"
      by (simp add: broadcast_loop.simps)
    then have "broadcast_loop w msg i s =
        (None, s\<lparr>websocket_clients := websocket_clients s,
                  delivered := delivered s @ map (\<lambda>c. (c, msg)) []\<rparr>)"
      by simp
    then show ?thesis
      by (metis empty_iff empty_set subset_refl empty_subsetI)
  next
    case True
    define c where "c = websocket_clients s ! i"
    have cin: "c \<in> set (websocket_clients s)"
      using True c_def by simp
    show ?thesis
    proof (cases "ws_send w c msg")
      case None
      let ?s1 = "s\<lparr>delivered := delivered s @ [(c, msg)]\<rparr>"
      have step: "broadcast_loop w msg i s = broadcast_loop w msg (Suc i) ?s1"
        using True None c_def by (subst broadcast_loop.simps) simp
      from "1.IH"(1)[OF True c_def None]
      obtain cs rs where h: "broadcast_loop w msg (Suc i) ?s1 =
          (None, ?s1\<lparr>websocket_clients := cs,
                      delivered := delivered ?s1 @ map (\<lambda>c. (c, msg)) rs\<rparr>)"
        "set cs \<subseteq> set (websocket_clients ?s1)" "set rs \<subseteq> set (websocket_clients ?s1)"
        "\<forall>c \<in> set rs. ws_send w c msg = None"
        by blast
      have "broadcast_loop w msg i s =
          (None, s\<lparr>websocket_clients := cs,
                    delivered := delivered s @ map (\<lambda>c. (c, msg)) (c # rs)\<rparr>)"
        using step h(1) by simp
      moreover have "set (c # rs) \<subseteq> set (websocket_clients s)"
        using h(3) cin by simp
      moreover have "\<forall>c \<in> set (c # rs). ws_send w c msg = None"
        using h(4) None by simp
      moreover have "set cs \<subseteq> set (websocket_clients s)"
        using h(2) by simp
      ultimately show ?thesis
        by blast
    next
      case (Some e)
      let ?s1 = "s\<lparr>websocket_clients := remove1 c (websocket_clients s)\<rparr>"
      have rm: "remove_client s c = (None, ?s1)"
        using cin by (simp add: remove_client_def)
      have step: "broadcast_loop w msg i s = broadcast_loop w msg (Suc i) ?s1"
        using True Some c_def rm by (subst broadcast_loop.simps) simp
      from "1.IH"(2)[OF True c_def Some rm[symmetric] refl]
      obtain cs rs where h: "broadcast_loop w msg (Suc i) ?s1 =
          (None, ?s1\<lparr>websocket_clients := cs,
                      delivered := delivered ?s1 @ map (\<lambda>c. (c, msg)) rs\<rparr>)"
        "set cs \<subseteq> set (websocket_clients ?s1)" "set rs \<subseteq> set (websocket_clients ?s1)"
        "\<forall>c \<in> set rs. ws_send w c msg = None"
        by blast
      have "broadcast_loop w msg i s =
          (None, s\<lparr>websocket_clients := cs,
                    delivered := delivered s @ map (\<lambda>c. (c, msg)) rs\<rparr>)"
        using step h(1) by simp
      moreover have "set rs \<subseteq> set (websocket_clients s)"
        using h(3) set_remove1_subset by fastforce
      moreover have "set cs \<subseteq> set (websocket_clients s)"
        using h(2) set_remove1_subset by fastforce
      ultimately show ?thesis
        using h(4) by blast
    qed
  qed
qed

text \<open>
  \<^verbatim>\<open>broadcast_update\<close> raises exactly when the message cannot be serialised, and has then
  done nothing.
\<close>

lemma broadcast_update_raises:
  "json_dumps (Event t d) = Some e \<Longrightarrow> broadcast_update w t d s = (Some e, s)"
  by (simp add: broadcast_update_def)

lemma broadcast_update_shape:
  "json_dumps (Event t d) = None \<Longrightarrow>
   \<exists>cs rs. broadcast_update w t d s =
      (None, s\<lparr>websocket_clients := cs,
                delivered := delivered s @ map (\<lambda>c. (c, Event t d)) rs\<rparr>)
    \<and> set cs \<subseteq> set (websocket_clients s) \<and> set rs \<subseteq> set (websocket_clients s)
    \<and> (\<forall>c \<in> set rs. ws_send w c (Event t d) = None)"
  unfolding broadcast_update_def by (simp add: broadcast_loop_shape)

text \<open>When every send succeeds, every client from index \<open>i\<close> on gets the message.\<close>

lemma broadcast_loop_all_sent:
  "\<forall>c \<in> set (websocket_clients s). ws_send w c msg = None \<Longrightarrow>
   broadcast_loop w msg i s =
     (None, s\<lparr>delivered := delivered s @ map (\<lambda>c. (c, msg)) (drop i (websocket_clients s))\<rparr>)"
proof (induction w msg i s rule: broadcast_loop.induct)
  case (1 w msg i s)
  show ?case
  proof (cases "i < length (websocket_clients s)")
    case False
    then show ?thesis
      by (simp add: broadcast_loop.simps)
  next
    case True
    define c where "c = websocket_clients s ! i"
    have sent: "ws_send w c msg = None"
      using True c_def "1.prems" by simp
    let ?s1 = "s\<lparr>delivered := delivered s @ [(c, msg)]\<rparr>"
    have step: "broadcast_loop w msg i s = broadcast_loop w msg (Suc i) ?s1"
      using True sent c_def by (subst broadcast_loop.simps) simp
    have "broadcast_loop w msg (Suc i) ?s1 =
        (None, ?s1\<lparr>delivered := delivered ?s1 @
            map (\<lambda>c. (c, msg)) (drop (Suc i) (websocket_clients ?s1))\<rparr>)"
      using "1.IH"(1)[OF True c_def sent] "1.prems" by simp
    moreover have "drop i (websocket_clients s) = c # drop (Suc i) (websocket_clients s)"
      using True c_def by (simp add: Cons_nth_drop_Suc)
    ultimately show ?thesis
      using step by simp
  qed
qed

lemma broadcast_update_all_sent:
  "json_dumps (Event t d) = None \<Longrightarrow>
   \<forall>c \<in> set (websocket_clients s). ws_send w c (Event t d) = None \<Longrightarrow>
   broadcast_update w t d s =
     (None, s\<lparr>delivered := delivered s @ map (\<lambda>c. (c, Event t d)) (websocket_clients s)\<rparr>)"
  unfolding broadcast_update_def by (simp add: broadcast_loop_all_sent)

text \<open>
  \<^verbatim>\<open>ConnectionManager.broadcast\<close>: the first loop delivers to the connections whose send
  returns and collects the others; the second loop removes the collected ones.
\<close>

lemma send_all_result:
  "send_all w msg cs m ds =
     (m\<lparr>mgr_delivered := mgr_delivered m @
          map (\<lambda>c. (c, msg)) [c \<leftarrow> cs. send_json w c msg = None]\<rparr>,
      ds @ [c \<leftarrow> cs. send_json w c msg \<noteq> None])"
  by (induction cs arbitrary: m ds) (auto split: option.splits)

lemma disconnect_fields:
  "active_connections (disconnect w m c) = remove1 c (active_connections m)"
  "mgr_transcript (disconnect w m c) = mgr_transcript m"
  "mgr_delivered (disconnect w m c) = mgr_delivered m"
  "shutdown_event (disconnect w m c) = shutdown_event m"
  by (simp_all add: disconnect_def Let_def remove1_idem split: option.splits)

lemma disconnect_all_fields:
  "active_connections (disconnect_all w ds m) = fold remove1 ds (active_connections m)"
  "mgr_transcript (disconnect_all w ds m) = mgr_transcript m"
  "mgr_delivered (disconnect_all w ds m) = mgr_delivered m"
  "shutdown_event (disconnect_all w ds m) = shutdown_event m"
  by (induction ds arbitrary: m) (simp_all add: disconnect_fields)

lemma fold_remove1_filter:
  "\<forall>y \<in> set ys. \<not> P y \<Longrightarrow> fold remove1 (filter P xs) (ys @ xs) = ys @ filter (\<lambda>x. \<not> P x) xs"
proof (induction xs arbitrary: ys)
  case Nil
  then show ?case by simp
next
  case (Cons x xs)
  show ?case
  proof (cases "P x")
    case True
    with Cons.prems have "x \<notin> set ys"
      by blast
    then have "remove1 x (ys @ x # xs) = ys @ xs"
      by (simp add: remove1_append)
    with True Cons.IH[OF Cons.prems] show ?thesis
      by simp
  next
    case False
    with Cons.prems have "\<forall>y \<in> set (ys @ [x]). \<not> P y"
      by simp
    from Cons.IH[OF this] False show ?thesis
      by simp
  qed
qed

lemma broadcast_fields:
  "active_connections (broadcast w msg m) = [c \<leftarrow> active_connections m. send_json w c msg = None]"
  "mgr_delivered (broadcast w msg m) =
     mgr_delivered m @ map (\<lambda>c. (c, msg)) [c \<leftarrow> active_connections m. send_json w c msg = None]"
  "mgr_transcript (broadcast w msg m) = mgr_transcript m"
  "shutdown_event (broadcast w msg m) = shutdown_event m"
proof -
  have "fold remove1 [c \<leftarrow> active_connections m. send_json w c msg \<noteq> None] ([] @ active_connections m) =
      [] @ [c \<leftarrow> active_connections m. \<not> send_json w c msg \<noteq> None]"
    by (rule fold_remove1_filter) simp
  then show "active_connections (broadcast w msg m) =
      [c \<leftarrow> active_connections m. send_json w c msg = None]"
    by (simp add: broadcast_def send_all_result disconnect_all_fields)
qed (simp_all add: broadcast_def send_all_result disconnect_all_fields)

section \<open>A failed delivery during a broadcast\<close>

text \<open>
  \<^verbatim>\<open>ConnectionManager.broadcast\<close> does what is asked of a broadcast: when exactly the
  channel \<open>c\<close> fails, \<open>c\<close> leaves the active list, every other connection stays and has
  received the message.
\<close>

lemma manager_broadcast_one_failure:
  assumes "send_json w c msg \<noteq> None"
    and "\<forall>c' \<in> set (active_connections m). c' \<noteq> c \<longrightarrow> send_json w c' msg = None"
  shows "active_connections (broadcast w msg m) = removeAll c (active_connections m)"
    and "mgr_delivered (broadcast w msg m) =
           mgr_delivered m @ map (\<lambda>c'. (c', msg)) (removeAll c (active_connections m))"
proof -
  have "[c' \<leftarrow> active_connections m. send_json w c' msg = None] = removeAll c (active_connections m)"
    using assms by (induction "active_connections m" arbitrary: m) (auto simp: removeAll_filter_not_eq intro: filter_cong)
  then show "active_connections (broadcast w msg m) = removeAll c (active_connections m)"
    and "mgr_delivered (broadcast w msg m) =
           mgr_delivered m @ map (\<lambda>c'. (c', msg)) (removeAll c (active_connections m))"
    by (simp_all add: broadcast_fields)
qed

text \<open>
  C3 fails on \<^verbatim>\<open>TranscriptionService.broadcast_update\<close>.  With the clients 1, 2 and 3,
  where only the send to client 1 raises, the loop removes client 1 from the list it
  is running over; the iterator's index then points past client 2, which stays
  registered and never gets the event.  Only client 3 receives it.
\<close>

theorem broadcast_update_skips_client_after_failure:
  "broadcast_update world_with_dead_client ''transcript'' (TextData ''hello'')
     (example_service\<lparr>websocket_clients := [1, 2, 3]\<rparr>)
   = (None, example_service\<lparr>websocket_clients := [2, 3],
                            delivered := [(3, Event ''transcript'' (TextData ''hello''))]\<rparr>)"
  by (simp add: broadcast_update_def broadcast_loop.simps remove_client_def
      world_with_dead_client_def example_world_def example_service_def)

section \<open>Unregistering a client twice\<close>

text \<open>
  \<^verbatim>\<open>ConnectionManager.disconnect\<close> is idempotent: on a channel that is not in the active
  list it changes nothing, and what \<^verbatim>\<open>close\<close> raises never shows in the active list.
\<close>

lemma disconnect_absent:
  "c \<notin> set (active_connections m) \<Longrightarrow> disconnect w m c = m"
  by (simp add: disconnect_def)

lemma disconnect_swallows_close_error:
  "active_connections (disconnect (w\<lparr>ws_close := (\<lambda>x. Some e)\<rparr>) m c) =
   active_connections (disconnect (w\<lparr>ws_close := (\<lambda>x. None)\<rparr>) m c)"
  by (simp add: disconnect_def)

text \<open>
  C7 fails on \<^verbatim>\<open>TranscriptionService.remove_client\<close>, which has no membership test: the
  first call removes client 1, the second call on the same client raises
  \<^verbatim>\<open>ValueError\<close>.
\<close>

theorem remove_client_twice_raises:
  "remove_client example_service 1 = (None, example_service\<lparr>websocket_clients := [2]\<rparr>)
   \<and> remove_client (example_service\<lparr>websocket_clients := [2]\<rparr>) 1 =
       (Some (ValueError ''list.remove(x): x not in list''),
        example_service\<lparr>websocket_clients := [2]\<rparr>)"
  by (simp add: remove_client_def example_service_def)

section \<open>The two derivations of a cycle\<close>

lemma diagram_derivation_fails_iff:
  "diagram_derivation_fails w s \<longleftrightarrow> generate_diagram_spec w s = None"
  by (simp add: diagram_derivation_fails_def generate_diagram_spec_def split: sum.splits)

lemma action_derivation_fails_empty:
  "action_derivation_fails w s \<Longrightarrow> extract_action_items w s = []"
  by (simp add: action_derivation_fails_def extract_action_items_def split: sum.splits)

text \<open>
  What \<^verbatim>\<open>_analyze_content\<close> does, case by case.  A diagram is appended, and its broadcast
  raises at the serialisation; the action items are then never looked at.  Without a
  diagram, a non-empty list of action items is appended, and its broadcast raises
  likewise.  Only a cycle that derived nothing returns.
\<close>

lemma analyze_content_cases:
  "analyze_content w s =
     (case generate_diagram_spec w s of
        Some d \<Rightarrow>
          (Some (TypeError ''Object of type datetime is not JSON serializable''),
           s\<lparr>diagrams := diagrams s @ [d]\<rparr>)
      | None \<Rightarrow>
          (if extract_action_items w s \<noteq> []
           then (Some (TypeError ''Object of type datetime is not JSON serializable''),
                 s\<lparr>action_items := action_items s @ extract_action_items w s\<rparr>)
           else (None, s)))"
  by (simp add: analyze_content_def and_then_def broadcast_update_def Let_def
      split: option.splits)

lemma analyze_content_fields:
  "current_transcript (snd (analyze_content w s)) = current_transcript s"
  "audio_buffer (snd (analyze_content w s)) = audio_buffer s"
  "is_processing (snd (analyze_content w s)) = is_processing s"
  "websocket_clients (snd (analyze_content w s)) = websocket_clients s"
  "delivered (snd (analyze_content w s)) = delivered s"
  by (simp_all add: analyze_content_cases split: option.splits)


section \<open>The transcript is the concatenation of the transcribed texts\<close>

lemma transcribed_text_simps:
  "transcribe w a = Inr t \<Longrightarrow> transcribed_text w a = t"
  "transcribe w a = Inl e \<Longrightarrow> transcribed_text w a = []"
  by (simp_all add: transcribed_text_def)

text \<open>
  \<^verbatim>\<open>process_audio_chunk\<close>: when the transcription raises, nothing has changed; when it
  returns \<open>t\<close>, the transcript has grown by \<open>t\<close> and the \<open>transcript\<close> event went out
  before the analysis, which delivers nothing itself.
\<close>

lemma process_audio_chunk_raised:
  "transcribe w a = Inl e \<Longrightarrow> process_audio_chunk w s a = (Inl e, s)"
  by (simp add: process_audio_chunk_def)

lemma process_audio_chunk_transcribed:
  assumes "transcribe w a = Inr t"
  shows "\<exists>s1. broadcast_update w ''transcript'' (TextData t)
           (s\<lparr>current_transcript := current_transcript s @ t\<rparr>) = (None, s1)
         \<and> snd (process_audio_chunk w s a) = snd (analyze_content w s1)
         \<and> current_transcript s1 = current_transcript s @ t
         \<and> audio_buffer s1 = audio_buffer s \<and> is_processing s1 = is_processing s
         \<and> delivered (snd (process_audio_chunk w s a)) = delivered s1"
proof -
  let ?s0 = "s\<lparr>current_transcript := current_transcript s @ t\<rparr>"
  have "json_dumps (Event ''transcript'' (TextData t)) = None"
    by simp
  from broadcast_update_shape[OF this, of w ?s0]
  obtain cs rs where sent: "broadcast_update w ''transcript'' (TextData t) ?s0 =
      (None, ?s0\<lparr>websocket_clients := cs,
          delivered := delivered ?s0 @ map (\<lambda>c. (c, Event ''transcript'' (TextData t))) rs\<rparr>)"
    by blast
  let ?s1 = "?s0\<lparr>websocket_clients := cs,
          delivered := delivered ?s0 @ map (\<lambda>c. (c, Event ''transcript'' (TextData t))) rs\<rparr>"
  have "process_audio_chunk w s a =
      (case analyze_content w ?s1 of (Some e, s2) \<Rightarrow> (Inl e, s2) | (None, s2) \<Rightarrow> (Inr t, s2))"
    using assms sent by (simp add: process_audio_chunk_def and_then_def)
  then have "snd (process_audio_chunk w s a) = snd (analyze_content w ?s1)"
    by (simp add: case_prod_unfold split: option.splits)
  with sent show ?thesis
    by (simp add: analyze_content_fields)
qed

lemma process_audio_chunk_fields:
  "current_transcript (snd (process_audio_chunk w s a)) = current_transcript s @ transcribed_text w a"
  "audio_buffer (snd (process_audio_chunk w s a)) = audio_buffer s"
  "is_processing (snd (process_audio_chunk w s a)) = is_processing s"
proof -
  have "current_transcript (snd (process_audio_chunk w s a)) = current_transcript s @ transcribed_text w a
    \<and> audio_buffer (snd (process_audio_chunk w s a)) = audio_buffer s
    \<and> is_processing (snd (process_audio_chunk w s a)) = is_processing s"
  proof (cases "transcribe w a")
    case (Inl e)
    then show ?thesis
      by (simp add: process_audio_chunk_raised transcribed_text_simps)
  next
    case (Inr t)
    from process_audio_chunk_transcribed[OF this, of s] Inr show ?thesis
      by (auto simp: analyze_content_fields transcribed_text_simps)
  qed
  then show "current_transcript (snd (process_audio_chunk w s a)) = current_transcript s @ transcribed_text w a"
    and "audio_buffer (snd (process_audio_chunk w s a)) = audio_buffer s"
    and "is_processing (snd (process_audio_chunk w s a)) = is_processing s"
    by simp_all
qed

text \<open>One round of the background loop.\<close>

lemma process_audio_buffer_step_empty:
  "audio_buffer s = [] \<Longrightarrow> process_audio_buffer_step w s = (None, s)"
  by (simp add: process_audio_buffer_step_def)

lemma process_audio_buffer_step_queued:
  "audio_buffer s \<noteq> [] \<Longrightarrow>
   process_audio_buffer_step w s =
     (case process_audio_chunk w (s\<lparr>audio_buffer := []\<rparr>) (concat (audio_buffer s)) of
        (Inl e, s1) \<Rightarrow> (Some e, s1)
      | (Inr transcribed, s1) \<Rightarrow> (None, s1))"
  by (simp add: process_audio_buffer_step_def collect_chunks_append concatenate_def)

lemma process_audio_buffer_step_snd:
  "audio_buffer s \<noteq> [] \<Longrightarrow>
   snd (process_audio_buffer_step w s) =
     snd (process_audio_chunk w (s\<lparr>audio_buffer := []\<rparr>) (concat (audio_buffer s)))"
  by (simp add: process_audio_buffer_step_queued case_prod_unfold split: sum.splits)

lemma process_audio_buffer_step_fields:
  "current_transcript (snd (process_audio_buffer_step w s)) =
     current_transcript s @
     (if audio_buffer s = [] then [] else transcribed_text w (concat (audio_buffer s)))"
  "audio_buffer (snd (process_audio_buffer_step w s)) = []"
  "is_processing (snd (process_audio_buffer_step w s)) = is_processing s"
  by (cases "audio_buffer s = []";
      simp add: process_audio_buffer_step_empty process_audio_buffer_step_snd
        process_audio_chunk_fields)+

lemma process_audio_buffer_transcript:
  "current_transcript (snd (process_audio_buffer w s arrivals)) =
     current_transcript s @ concat (map (transcribed_text w) (handed_over w s arrivals))"
proof (induction arrivals arbitrary: s)
  case Nil
  show ?case by simp
next
  case (Cons arrived arrivals)
  let ?s0 = "s\<lparr>audio_buffer := audio_buffer s @ arrived\<rparr>"
  obtain r s1 where step: "process_audio_buffer_step w ?s0 = (r, s1)"
    by fastforce
  have s1: "current_transcript s1 =
      current_transcript s @
      (if audio_buffer s @ arrived = [] then []
       else transcribed_text w (concat (audio_buffer s @ arrived)))"
    using process_audio_buffer_step_fields(1)[of w ?s0] step by simp
  show ?case
  proof (cases "is_processing s")
    case False
    then show ?thesis by simp
  next
    case True
    show ?thesis
    proof (cases r)
      case None
      with True step have "process_audio_buffer w s (arrived # arrivals) =
          process_audio_buffer w s1 arrivals"
        by (simp add: foldl_queue_put)
      with Cons.IH[of s1] s1 True step None show ?thesis
        by simp
    next
      case (Some e)
      with True step have "process_audio_buffer w s (arrived # arrivals) = (Some e, s1)"
        by (simp add: foldl_queue_put)
      with s1 True step Some show ?thesis
        by simp
    qed
  qed
qed

lemma handed_over_prefix:
  "prefix (handed_over w s arrivals) (submitted_buffers (audio_buffer s) arrivals)"
proof (induction arrivals arbitrary: s)
  case Nil
  show ?case by simp
next
  case (Cons arrived arrivals)
  let ?s0 = "s\<lparr>audio_buffer := audio_buffer s @ arrived\<rparr>"
  obtain r s1 where step: "process_audio_buffer_step w ?s0 = (r, s1)"
    by fastforce
  have s1: "audio_buffer s1 = []"
    using process_audio_buffer_step_fields(2)[of w ?s0] step by simp
  have rest: "prefix (handed_over w s1 arrivals) (submitted_buffers [] arrivals)"
    using Cons.IH[of s1] s1 by simp
  show ?case
  proof (cases "is_processing s")
    case False
    then show ?thesis by simp
  next
    case True
    with step rest show ?thesis
      by (cases r) simp_all
  qed
qed

lemma handed_over_all:
  "is_processing s \<Longrightarrow> fst (process_audio_buffer w s arrivals) = None \<Longrightarrow>
   handed_over w s arrivals = submitted_buffers (audio_buffer s) arrivals"
proof (induction arrivals arbitrary: s)
  case Nil
  show ?case by simp
next
  case (Cons arrived arrivals)
  let ?s0 = "s\<lparr>audio_buffer := audio_buffer s @ arrived\<rparr>"
  obtain r s1 where step: "process_audio_buffer_step w ?s0 = (r, s1)"
    by fastforce
  have s1: "audio_buffer s1 = []" "is_processing s1"
    using process_audio_buffer_step_fields(2,3)[of w ?s0] step Cons.prems(1) by simp_all
  show ?case
  proof (cases r)
    case (Some e)
    with step Cons.prems have False
      by (simp add: foldl_queue_put)
    then show ?thesis ..
  next
    case None
    with step Cons.prems have "fst (process_audio_buffer w s1 arrivals) = None"
      by (simp add: foldl_queue_put)
    from Cons.IH[OF s1(2) this] s1 step None Cons.prems(1) show ?thesis
      by simp
  qed
qed

text \<open>The endpoint of \<^verbatim>\<open>main.py\<close>.\<close>

lemma process_audio_fields:
  "mgr_transcript (snd (process_audio w m a)) = mgr_transcript m @ transcribed_text w a"
  "shutdown_event (snd (process_audio w m a)) = shutdown_event m"
  "active_connections (snd (process_audio w m a)) = active_connections m"
  "mgr_delivered (snd (process_audio w m a)) = mgr_delivered m"
  by (simp_all add: process_audio_def transcribed_text_def Let_def split: sum.splits)

lemma websocket_round_fields:
  "mgr_transcript (snd (websocket_round w c m r)) =
     mgr_transcript m @ concat (map (transcribed_text w) (received_buffers [r]))"
  "shutdown_event (snd (websocket_round w c m r)) = shutdown_event m"
  "fst (websocket_round w c m r) \<longleftrightarrow> r \<noteq> WebSocketDisconnect"
proof -
  show "mgr_transcript (snd (websocket_round w c m r)) =
     mgr_transcript m @ concat (map (transcribed_text w) (received_buffers [r]))"
    by (cases r)
      (simp_all add: websocket_round_def broadcast_fields disconnect_fields process_audio_fields
        case_prod_unfold split: sum.splits)
  show "shutdown_event (snd (websocket_round w c m r)) = shutdown_event m"
    by (cases r)
      (simp_all add: websocket_round_def broadcast_fields disconnect_fields process_audio_fields
        case_prod_unfold split: sum.splits)
  show "fst (websocket_round w c m r) \<longleftrightarrow> r \<noteq> WebSocketDisconnect"
    by (cases r) (simp_all add: websocket_round_def case_prod_unfold split: sum.splits)
qed

lemma websocket_loop_transcript:
  "\<not> shutdown_event m \<Longrightarrow>
   mgr_transcript (websocket_loop w c m rs) =
     mgr_transcript m @ concat (map (transcribed_text w) (received_buffers rs))"
proof (induction rs arbitrary: m)
  case Nil
  then show ?case by simp
next
  case (Cons r rs)
  obtain go m1 where round: "websocket_round w c m r = (go, m1)"
    by fastforce
  note f = websocket_round_fields[of w c m r]
  have m1: "mgr_transcript m1 =
      mgr_transcript m @ concat (map (transcribed_text w) (received_buffers [r]))"
    "\<not> shutdown_event m1" "go \<longleftrightarrow> r \<noteq> WebSocketDisconnect"
    using f round Cons.prems by simp_all
  show ?case
  proof (cases "r = WebSocketDisconnect")
    case True
    with m1 round Cons.prems have "websocket_loop w c m (r # rs) = m1"
      by simp
    with m1 True show ?thesis
      by simp
  next
    case False
    with m1 round Cons.prems have "websocket_loop w c m (r # rs) = websocket_loop w c m1 rs"
      by simp
    moreover have "received_buffers (r # rs) = received_buffers [r] @ received_buffers rs"
      using False by (cases r) (simp_all split: sum.splits)
    ultimately show ?thesis
      using Cons.IH[OF m1(2)] m1 by simp
  qed
qed

lemma service_operations_keep_transcript:
  "current_transcript (snd (register_client w s c)) = current_transcript s"
  "current_transcript (snd (remove_client s c)) = current_transcript s"
  "current_transcript (snd (broadcast_update w t d s)) = current_transcript s"
proof -
  show "current_transcript (snd (register_client w s c)) = current_transcript s"
    by (simp add: register_client_def Let_def split: option.splits)
  show "current_transcript (snd (remove_client s c)) = current_transcript s"
    by (simp add: remove_client_def)
  show "current_transcript (snd (broadcast_update w t d s)) = current_transcript s"
  proof (cases "json_dumps (Event t d)")
    case None
    from broadcast_update_shape[OF this, of w s] show ?thesis
      by auto
  next
    case (Some e)
    then show ?thesis
      by (simp add: broadcast_update_raises)
  qed
qed

lemma connect_transcript:
  "mgr_transcript (snd (connect w m c)) = mgr_transcript m"
  by (simp add: connect_def split: option.splits)

text \<open>
  C1.  Each call of \<^verbatim>\<open>process_audio_chunk\<close> and of \<^verbatim>\<open>process_audio\<close> extends the stored
  transcript by exactly the text the Transcriber returned for the buffer, and by
  nothing when the transcription raised; this holds also when the call raises after
  the transcription, since the text is appended first.  Hence after any number of
  rounds of the background loop the transcript is the old one followed by the texts
  of the buffers handed over in the rounds it ran, in order.  These buffers are an
  initial part of the buffers that arrived, and all of them when no round raised.
  After any number of rounds of the endpoint the transcript is the old one followed
  by the texts of the decoded frames, in order.  No other operation of the two classes
  changes the transcript.
\<close>

theorem transcript_is_concatenation_of_transcribed_texts:
  "current_transcript (snd (process_audio_chunk w s a)) = current_transcript s @ transcribed_text w a
   \<and> mgr_transcript (snd (process_audio w m a)) = mgr_transcript m @ transcribed_text w a
   \<and> current_transcript (snd (process_audio_buffer w s arrivals)) =
        current_transcript s @ concat (map (transcribed_text w) (handed_over w s arrivals))
   \<and> prefix (handed_over w s arrivals) (submitted_buffers (audio_buffer s) arrivals)
   \<and> (is_processing s \<and> fst (process_audio_buffer w s arrivals) = None \<longrightarrow>
        handed_over w s arrivals = submitted_buffers (audio_buffer s) arrivals)
   \<and> (\<not> shutdown_event m \<longrightarrow>
        mgr_transcript (websocket_loop w c m rs) =
          mgr_transcript m @ concat (map (transcribed_text w) (received_buffers rs)))
   \<and> current_transcript (snd (register_client w s c)) = current_transcript s
   \<and> current_transcript (snd (remove_client s c)) = current_transcript s
   \<and> current_transcript (snd (broadcast_update w t d s)) = current_transcript s
   \<and> current_transcript (snd (analyze_content w s)) = current_transcript s
   \<and> mgr_transcript (snd (connect w m c)) = mgr_transcript m
   \<and> mgr_transcript (disconnect w m c) = mgr_transcript m
   \<and> mgr_transcript (broadcast w msg m) = mgr_transcript m"
proof -
  have all_handed: "is_processing s \<and> fst (process_audio_buffer w s arrivals) = None \<longrightarrow>
        handed_over w s arrivals = submitted_buffers (audio_buffer s) arrivals"
    by (simp add: handed_over_all)
  have endpoint_loop: "\<not> shutdown_event m \<longrightarrow>
        mgr_transcript (websocket_loop w c m rs) =
          mgr_transcript m @ concat (map (transcribed_text w) (received_buffers rs))"
    by (simp add: websocket_loop_transcript)
  from process_audio_chunk_fields(1) process_audio_fields(1) process_audio_buffer_transcript
    handed_over_prefix all_handed endpoint_loop
    service_operations_keep_transcript analyze_content_fields(1) connect_transcript
    disconnect_fields(2) broadcast_fields(3)
  show ?thesis
    by (intro conjI) assumption+
qed

text \<open>
  Two runs of the background loop.  Where both derivations raise, all three rounds
  run and both buffers are transcribed.  Where everything works, the first round
  appends \<open>hello\<close>, derives a diagram and dies broadcasting it: the second buffer is
  never handed over.  And one run of the endpoint.
\<close>

theorem transcript_is_concatenation_of_transcribed_texts_witness:
  "is_processing example_service
   \<and> fst (process_audio_buffer world_without_insights example_service [[[1], [2]], [], [[3]]]) = None
   \<and> handed_over world_without_insights example_service [[[1], [2]], [], [[3]]] = [[1, 2], [3]]
   \<and> current_transcript (snd (process_audio_buffer world_without_insights example_service
        [[[1], [2]], [], [[3]]])) = ''hihellohello''
   \<and> handed_over example_world example_service [[[1]], [[2]]] = [[1]]
   \<and> current_transcript (snd (process_audio_buffer example_world example_service [[[1]], [[2]]]))
       = ''hihello''
   \<and> \<not> shutdown_event example_manager
   \<and> mgr_transcript (websocket_loop
        (example_world\<lparr>transcribe := (\<lambda>a. if a = [] then Inl (Exception ''noise'') else Inr ''hello'')\<rparr>)
        1 example_manager [Data [0, 0, 0, 0], TimeoutError, Data [], Data [1], Data [1, 0, 0, 0]])
       = ''hihellohello''"
proof -
  let ?v = "example_world\<lparr>transcribe := (\<lambda>a. if a = [] then Inl (Exception ''noise'') else Inr ''hello'')\<rparr>"
  let ?run = "[[[1], [2]], [], [[3]]] :: ndarray list list"
  have on: "is_processing example_service" and up: "\<not> shutdown_event example_manager"
    by (simp_all add: example_service_def example_manager_def)
  have quiet: "fst (process_audio_buffer world_without_insights example_service ?run) = None"
    by (simp add: queue_put_def process_audio_buffer_step_def concatenate_def
        process_audio_chunk_def and_then_def analyze_content_def generate_diagram_spec_def
        extract_action_items_def broadcast_update_def broadcast_loop.simps
        world_without_insights_def example_world_def example_service_def)
  have both: "is_processing example_service
      \<and> fst (process_audio_buffer world_without_insights example_service ?run) = None"
    using on quiet by simp
  note first = transcript_is_concatenation_of_transcribed_texts
      [of world_without_insights example_service "[]" example_manager ?run]
  note second = transcript_is_concatenation_of_transcribed_texts
      [of example_world example_service "[]" example_manager "[[[1]], [[2]]]"]
  note third = transcript_is_concatenation_of_transcribed_texts
      [of ?v example_service "[]" example_manager "[]" 1
          "[Data [0, 0, 0, 0], TimeoutError, Data [], Data [1], Data [1, 0, 0, 0]]",
        THEN conjunct2, THEN conjunct2, THEN conjunct2, THEN conjunct2, THEN conjunct2,
        THEN conjunct1, THEN mp, OF up]
  have all_handed: "handed_over world_without_insights example_service ?run = [[1, 2], [3]]"
    using first [THEN conjunct2, THEN conjunct2, THEN conjunct2, THEN conjunct2,
        THEN conjunct1, THEN mp, OF both]
    by (simp add: example_service_def)
  have one: "current_transcript (snd (process_audio_buffer world_without_insights example_service ?run))
      = ''hihellohello''"
    using first [THEN conjunct2, THEN conjunct2, THEN conjunct1] all_handed
    by (simp add: transcribed_text_def world_without_insights_def example_world_def
        example_service_def)
  have died: "handed_over example_world example_service [[[1]], [[2]]] = [[1]]"
    by (simp add: process_audio_buffer_step_def concatenate_def
        process_audio_chunk_def and_then_def analyze_content_def generate_diagram_spec_def
        extract_action_items_def broadcast_update_def broadcast_loop.simps
        example_world_def example_service_def)
  have two: "current_transcript (snd (process_audio_buffer example_world example_service [[[1]], [[2]]]))
      = ''hihello''"
    using second [THEN conjunct2, THEN conjunct2, THEN conjunct1] died
    by (simp add: transcribed_text_def example_world_def example_service_def)
  have three: "mgr_transcript (websocket_loop ?v 1 example_manager
      [Data [0, 0, 0, 0], TimeoutError, Data [], Data [1], Data [1, 0, 0, 0]]) = ''hihellohello''"
    using third
    by (simp add: example_manager_def example_world_def transcribed_text_def sample_of_bytes_def)
  from on quiet all_handed one died two up three show ?thesis
    by simp
qed

section \<open>A cycle with nothing to transcribe\<close>

text \<open>
  C8, as it holds.  A round of the background loop that finds no chunk queued calls
  nothing and changes nothing: no Transcriber call, no event.  A round that finds
  chunks is never skipped, also when they concatenate to zero samples: the round is
  then a call of \<^verbatim>\<open>process_audio_chunk\<close> on the empty buffer.  If the Transcriber raises
  on the empty buffer, the round raises the same; if it returns a text, the text is
  appended to the transcript and broadcast as a \<open>transcript\<close> event, which every client
  gets when every send succeeds, and no other event is delivered in the round.
\<close>

theorem round_without_chunks_is_skipped:
  "(audio_buffer s = [] \<longrightarrow> process_audio_buffer_step w s = (None, s))
   \<and> (audio_buffer s \<noteq> [] \<and> concat (audio_buffer s) = [] \<longrightarrow>
        process_audio_buffer_step w s =
          (case process_audio_chunk w (s\<lparr>audio_buffer := []\<rparr>) [] of
             (Inl e, s1) \<Rightarrow> (Some e, s1)
           | (Inr transcribed, s1) \<Rightarrow> (None, s1))
        \<and> current_transcript (snd (process_audio_buffer_step w s)) =
            current_transcript s @ transcribed_text w []
        \<and> (transcribe w [] = Inl e \<longrightarrow>
             process_audio_buffer_step w s = (Some e, s\<lparr>audio_buffer := []\<rparr>))
        \<and> (transcribe w [] = Inr t \<longrightarrow>
             current_transcript (snd (process_audio_buffer_step w s)) = current_transcript s @ t
             \<and> delivered (snd (process_audio_buffer_step w s)) =
                 delivered (snd (broadcast_update w ''transcript'' (TextData t)
                   (s\<lparr>audio_buffer := [], current_transcript := current_transcript s @ t\<rparr>)))
             \<and> ((\<forall>c \<in> set (websocket_clients s). ws_send w c (Event ''transcript'' (TextData t)) = None) \<longrightarrow>
                  delivered (snd (process_audio_buffer_step w s)) =
                    delivered s @
                    map (\<lambda>c. (c, Event ''transcript'' (TextData t))) (websocket_clients s))))"
proof (intro conjI impI)
  assume "audio_buffer s = []"
  then show "process_audio_buffer_step w s = (None, s)"
    by (rule process_audio_buffer_step_empty)
next
  assume h: "audio_buffer s \<noteq> [] \<and> concat (audio_buffer s) = []"
  then have queued: "audio_buffer s \<noteq> []" and silent: "concat (audio_buffer s) = []"
    by simp_all
  from process_audio_buffer_step_queued[OF queued, of w]
  show run: "process_audio_buffer_step w s =
      (case process_audio_chunk w (s\<lparr>audio_buffer := []\<rparr>) [] of
         (Inl e, s1) \<Rightarrow> (Some e, s1)
       | (Inr transcribed, s1) \<Rightarrow> (None, s1))"
    unfolding silent .
  have snd_run: "snd (process_audio_buffer_step w s) =
      snd (process_audio_chunk w (s\<lparr>audio_buffer := []\<rparr>) [])"
    using process_audio_buffer_step_snd[OF queued, of w] unfolding silent .
  from queued process_audio_buffer_step_fields(1)[of w s]
  have "current_transcript (snd (process_audio_buffer_step w s)) =
      current_transcript s @ transcribed_text w (concat (audio_buffer s))"
    by simp
  then show grown: "current_transcript (snd (process_audio_buffer_step w s)) =
      current_transcript s @ transcribed_text w []"
    unfolding silent .
  {
    assume "transcribe w [] = Inl e"
    then show "process_audio_buffer_step w s = (Some e, s\<lparr>audio_buffer := []\<rparr>)"
      by (simp add: run process_audio_chunk_raised)
  }
  {
    assume t: "transcribe w [] = Inr t"
    then show "current_transcript (snd (process_audio_buffer_step w s)) = current_transcript s @ t"
      using grown by (simp add: transcribed_text_simps)
    from process_audio_chunk_transcribed[OF t, of "s\<lparr>audio_buffer := []\<rparr>"]
    obtain s1 where s1: "broadcast_update w ''transcript'' (TextData t)
        (s\<lparr>audio_buffer := [], current_transcript := current_transcript s @ t\<rparr>) = (None, s1)"
      "delivered (snd (process_audio_chunk w (s\<lparr>audio_buffer := []\<rparr>) [])) = delivered s1"
      by auto
    then show sent: "delivered (snd (process_audio_buffer_step w s)) =
        delivered (snd (broadcast_update w ''transcript'' (TextData t)
          (s\<lparr>audio_buffer := [], current_transcript := current_transcript s @ t\<rparr>)))"
      by (simp add: snd_run)
    assume "\<forall>c \<in> set (websocket_clients s). ws_send w c (Event ''transcript'' (TextData t)) = None"
    then show "delivered (snd (process_audio_buffer_step w s)) =
        delivered s @ map (\<lambda>c. (c, Event ''transcript'' (TextData t))) (websocket_clients s)"
      by (simp add: sent broadcast_update_all_sent)
  }
qed

theorem round_without_chunks_is_skipped_witness:
  "audio_buffer example_service = []
   \<and> process_audio_buffer_step example_world example_service = (None, example_service)
   \<and> audio_buffer (example_service\<lparr>audio_buffer := [[], []]\<rparr>) \<noteq> []
   \<and> concat (audio_buffer (example_service\<lparr>audio_buffer := [[], []]\<rparr>)) = []
   \<and> transcribe example_world [] = Inr ''hello''
   \<and> current_transcript (snd (process_audio_buffer_step example_world
        (example_service\<lparr>audio_buffer := [[], []]\<rparr>))) = ''hihello''
   \<and> delivered (snd (process_audio_buffer_step example_world
        (example_service\<lparr>audio_buffer := [[], []]\<rparr>))) =
       [(1, Event ''transcript'' (TextData ''hello'')), (2, Event ''transcript'' (TextData ''hello''))]"
proof -
  let ?s = "example_service\<lparr>audio_buffer := [[], []]\<rparr>"
  have none: "audio_buffer example_service = []"
    by (simp add: example_service_def)
  have some: "audio_buffer ?s \<noteq> [] \<and> concat (audio_buffer ?s) = []"
    by simp
  have heard: "transcribe example_world [] = Inr ''hello''"
    by (simp add: example_world_def)
  have sends: "\<forall>c \<in> set (websocket_clients ?s).
      ws_send example_world c (Event ''transcript'' (TextData ''hello'')) = None"
    by (simp add: example_world_def)
  note skipped = round_without_chunks_is_skipped
      [of example_service example_world, THEN conjunct1, THEN mp, OF none]
  note transcribed = round_without_chunks_is_skipped
      [of ?s example_world "Exception []" "''hello''",
        THEN conjunct2, THEN mp, OF some, THEN conjunct2, THEN conjunct2, THEN conjunct2,
        THEN mp, OF heard]
  have grown: "current_transcript (snd (process_audio_buffer_step example_world ?s)) = ''hihello''"
    using transcribed [THEN conjunct1] by (simp add: example_service_def)
  have sent: "delivered (snd (process_audio_buffer_step example_world ?s)) =
      [(1, Event ''transcript'' (TextData ''hello'')), (2, Event ''transcript'' (TextData ''hello''))]"
    using transcribed [THEN conjunct2, THEN conjunct2, THEN mp, OF sends]
    by (simp add: example_service_def)
  from none some skipped heard grown sent show ?thesis
    by simp
qed

text \<open>
  The claim as written fails: one queued chunk of zero samples concatenates to zero
  samples, and the round still calls the Transcriber, appends its text and sends a
  \<open>transcript\<close> event to both clients.
\<close>

theorem zero_samples_are_transcribed_counterexample:
  "concat (audio_buffer (example_service\<lparr>audio_buffer := [[]]\<rparr>)) = []
   \<and> process_audio_buffer_step world_without_insights (example_service\<lparr>audio_buffer := [[]]\<rparr>)
       = (None, example_service\<lparr>current_transcript := ''hihello'',
            delivered := [(1, Event ''transcript'' (TextData ''hello'')),
                          (2, Event ''transcript'' (TextData ''hello''))]\<rparr>)"
  by (simp add: process_audio_buffer_step_def concatenate_def process_audio_chunk_def
      and_then_def analyze_content_def generate_diagram_spec_def extract_action_items_def
      broadcast_update_def broadcast_loop.simps world_without_insights_def
      example_world_def example_service_def)

section \<open>A failed transcription in the endpoint\<close>




end
